theory Spec2Isabelle
  imports Complex_Main "HOL-Library.Sublist"
begin

section \<open>Python strings\<close>

text \<open>
  Gene symbols, column names and report lines are Python \<open>str\<close> values. They are modelled
  as \<^typ>\<open>string\<close> restricted to the ASCII repertoire: \<open>str.upper\<close> and \<open>str.lower\<close>
  change the 26 Latin letters only, and \<open>str.strip\<close> removes the ASCII characters for
  which \<open>str.isspace\<close> holds (tab, line feed, vertical tab, form feed, carriage return,
  the four separators 0x1C to 0x1F and the space).
\<close>

definition isspace :: "char \<Rightarrow> bool" where
  "isspace c = (let n = (of_char c :: nat) in (9 \<le> n \<and> n \<le> 13) \<or> (28 \<le> n \<and> n \<le> 32))"

definition upper_char :: "char \<Rightarrow> char" where
  "upper_char c = (let n = (of_char c :: nat) in if 97 \<le> n \<and> n \<le> 122 then char_of (n - 32) else c)"

definition lower_char :: "char \<Rightarrow> char" where
  "lower_char c = (let n = (of_char c :: nat) in if 65 \<le> n \<and> n \<le> 90 then char_of (n + 32) else c)"

definition str_upper :: "string \<Rightarrow> string" where
  "str_upper s = map upper_char s"

definition str_lower :: "string \<Rightarrow> string" where
  "str_lower s = map lower_char s"

definition str_strip :: "string \<Rightarrow> string" where
  "str_strip s = rev (dropWhile isspace (rev (dropWhile isspace s)))"

text \<open>\<open>sep.join(xs)\<close>.\<close>

fun str_join :: "string \<Rightarrow> string list \<Rightarrow> string" where
  "str_join sep [] = []"
| "str_join sep [x] = x"
| "str_join sep (x # y # ys) = x @ sep @ str_join sep (y # ys)"

text \<open>\<open>str(n)\<close> for an integer: its decimal digits, with a minus sign when negative.\<close>

fun str_nat :: "nat \<Rightarrow> string" where
  "str_nat n = (if n < 10 then [char_of (48 + n)] else str_nat (n div 10) @ [char_of (48 + n mod 10)])"

declare str_nat.simps [simp del]

definition str_int :: "int \<Rightarrow> string" where
  "str_int i = (if i < 0 then CHR ''-'' # str_nat (nat (- i)) else str_nat (nat i))"

section \<open>Exceptions\<close>

text \<open>
  The exceptions the modelled functions raise. \<open>PandasError\<close> stands for any exception
  raised inside \<open>pd.read_csv\<close> or \<open>pd.read_excel\<close>, carried with its message.
\<close>

datatype py_error =
    FileNotFoundError string
  | ValueError string
  | IndexError
  | KeyError string
  | ZeroDivisionError
  | AttributeError
  | PandasError string

section \<open>file\_reader.py\<close>

text \<open>
  A table cell is missing (\<open>NaN\<close>) or holds a value; \<open>Str s\<close> is a cell whose
  \<open>astype(str)\<close> text is \<open>s\<close>. A column label is a string, or it is not: \<open>pd.read_excel\<close>
  gives a numeric header cell as a number, here \<open>LInt\<close>. A data frame is its columns in
  table order, each with its cells, and its number of rows (\<open>len(df)\<close>).
\<close>

datatype cell = NaN | Str string

datatype label = LStr string | LInt int

record dataframe =
  table :: "(label \<times> cell list) list"
  n_rows :: nat

definition columns :: "dataframe \<Rightarrow> label list" where
  "columns df = map fst (table df)"

text \<open>\<open>isinstance(col, str)\<close>.\<close>

fun is_str :: "label \<Rightarrow> bool" where
  "is_str (LStr s) = True"
| "is_str (LInt i) = False"

text \<open>\<open>str(col)\<close>, as an f-string renders a label.\<close>

fun str_label :: "label \<Rightarrow> string" where
  "str_label (LStr s) = s"
| "str_label (LInt i) = str_int i"

datatype sheet = SheetIndex int | SheetName string

text \<open>
  What \<open>read_gene_list\<close> takes from pathlib, pandas and the Python runtime:
  \<open>Path(p).exists()\<close>, \<open>Path(p).suffix\<close>, \<open>Path(p).name\<close>, \<open>pd.read_csv(p, sep)\<close>,
  \<open>pd.read_excel(p, sheet_name)\<close> (each reader returns a table or raises, \<open>Inl\<close> holding
  the exception's message) and \<open>repr\<close> of a string.
\<close>

record env =
  path_exists :: "string \<Rightarrow> bool"
  path_suffix :: "string \<Rightarrow> string"
  path_name :: "string \<Rightarrow> string"
  read_csv :: "string \<Rightarrow> string \<Rightarrow> string + dataframe"
  read_excel :: "string \<Rightarrow> sheet \<Rightarrow> string + dataframe"
  repr_str :: "string \<Rightarrow> string"

text \<open>
  \<open>str(list(df.columns))\<close>: the \<open>repr\<close> of each label, comma-separated, in brackets; the
  \<open>repr\<close> of an integer is its decimal text.
\<close>

fun repr_label :: "env \<Rightarrow> label \<Rightarrow> string" where
  "repr_label E (LStr s) = repr_str E s"
| "repr_label E (LInt i) = str_int i"

definition repr_list :: "env \<Rightarrow> label list \<Rightarrow> string" where
  "repr_list E xs = ''['' @ str_join '', '' (map (repr_label E) xs) @ '']''"

record metadata =
  md_file :: string
  md_total_rows :: nat
  md_gene_column :: label
  md_gene_count :: nat
  md_columns :: "label list"

definition common_names :: "string list" where
  "common_names =
     [''gene'', ''genes'', ''gene_symbol'', ''gene_name'', ''symbol'',
      ''Gene'', ''Genes'', ''Gene_Symbol'', ''Gene_Name'', ''Symbol'',
      ''GENE'', ''GENES'', ''GENE_SYMBOL'', ''GENE_NAME'', ''SYMBOL'',
      ''geneid'', ''gene_id'', ''GeneID'', ''Gene_ID'']"

text \<open>
  The loop over \<open>df.columns\<close> returns the first column that passes the test. On a label
  that is not a string, \<open>col in common_names\<close> is false and \<open>col.lower()\<close> then raises
  \<open>AttributeError\<close>.
\<close>

fun detect_in :: "label list \<Rightarrow> py_error + label option" where
  "detect_in [] = Inr None"
| "detect_in (LStr col # cols) =
     (if col \<in> set common_names \<or> str_lower col \<in> set (map str_lower common_names)
      then Inr (Some (LStr col))
      else detect_in cols)"
| "detect_in (LInt i # cols) = Inl AttributeError"

definition detect_gene_column :: "dataframe \<Rightarrow> py_error + label option" where
  "detect_gene_column df = detect_in (columns df)"

text \<open>Lines 27 to 36: the reader is chosen by the lower-cased suffix.\<close>

definition load_table :: "env \<Rightarrow> string \<Rightarrow> sheet \<Rightarrow> py_error + dataframe" where
  "load_table E file_path sheet_name =
     (let suffix = str_lower (path_suffix E file_path) in
      if suffix = ''.csv'' then map_sum PandasError id (read_csv E file_path '','')
      else if suffix \<in> set [''.xlsx'', ''.xls''] then
        map_sum PandasError id (read_excel E file_path sheet_name)
      else if suffix \<in> set [''.tsv'', ''.txt''] then
        map_sum PandasError id (read_csv E file_path [CHR 0x09])
      else Inl (ValueError (''Unsupported file format: '' @ suffix)))"

text \<open>
  Lines 38 to 41: an explicit column name (a string) is kept; otherwise the detected
  column, or \<open>df.columns[0]\<close>, which raises \<open>IndexError\<close> on a table without columns.
\<close>

definition resolve_column :: "dataframe \<Rightarrow> string option \<Rightarrow> py_error + label" where
  "resolve_column df gene_column =
     (case gene_column of
        Some c \<Rightarrow> Inr (LStr c)
      | None \<Rightarrow>
         (case detect_gene_column df of
            Inl e \<Rightarrow> Inl e
          | Inr (Some c) \<Rightarrow> Inr c
          | Inr None \<Rightarrow> (case columns df of [] \<Rightarrow> Inl IndexError | c # _ \<Rightarrow> Inr c)))"

text \<open>Lines 46 and 47: the normalization of the chosen column's cells.\<close>

definition dropna :: "cell list \<Rightarrow> cell list" where
  "dropna cells = filter (\<lambda>c. c \<noteq> NaN) cells"

fun astype_str :: "cell \<Rightarrow> string" where
  "astype_str NaN = ''nan''"
| "astype_str (Str s) = s"

definition normalize_genes :: "cell list \<Rightarrow> string list" where
  "normalize_genes cells =
     (let genes = map str_upper (map str_strip (map astype_str (dropna cells)))
      in filter (\<lambda>g. g \<noteq> [] \<and> g \<noteq> ''NAN'') genes)"

text \<open>
  \<open>gene_column not in df.columns\<close> is the case where the table has no column with that
  label; otherwise \<open>df[gene_column]\<close> is that column's cells.
\<close>

definition read_gene_list ::
  "env \<Rightarrow> string \<Rightarrow> string option \<Rightarrow> sheet \<Rightarrow> py_error + (string list \<times> metadata)" where
  "read_gene_list E file_path gene_column sheet_name =
     (if \<not> path_exists E file_path then Inl (FileNotFoundError (''File not found: '' @ file_path))
      else
        case load_table E file_path sheet_name of
          Inl e \<Rightarrow> Inl e
        | Inr df \<Rightarrow>
           (case resolve_column df gene_column of
              Inl e \<Rightarrow> Inl e
            | Inr gene_column \<Rightarrow>
               (case map_of (table df) gene_column of
                  None \<Rightarrow>
                    Inl (ValueError (''Column '' @ [CHR 0x27] @ str_label gene_column @ [CHR 0x27]
                                      @ '' does not exist. Available columns: ''
                                      @ repr_list E (columns df)))
                | Some cells \<Rightarrow>
                    (let genes = normalize_genes cells in
                     Inr (genes,
                          \<lparr> md_file = path_name E file_path,
                            md_total_rows = n_rows df,
                            md_gene_column = gene_column,
                            md_gene_count = length genes,
                            md_columns = columns df \<rparr>)))))"

text \<open>
  The alias list as the specification gives it; the code's list \<open>common_names\<close> holds
  these names in several capitalizations. A label is an alias when it is a string whose
  lower-cased text is in the list.
\<close>

definition spec_aliases :: "string list" where
  "spec_aliases =
     [''gene'', ''genes'', ''gene_symbol'', ''gene_name'', ''symbol'', ''geneid'', ''gene_id'']"

fun is_alias :: "label \<Rightarrow> bool" where
  "is_alias (LStr s) = (str_lower s \<in> set spec_aliases)"
| "is_alias (LInt i) = False"

text \<open>
  A small world for concrete runs: four paths exist, the suffix of a name with one dot is
  taken from that dot on, every reader returns the given table, and \<open>repr\<close> puts a name
  in single quotes.
\<close>

definition example_env :: "dataframe \<Rightarrow> env" where
  "example_env df =
     \<lparr> path_exists = (\<lambda>p. p \<in> set [''genes.csv'', ''genes.xlsx'', ''notes.pdf'', ''empty.xlsx'']),
       path_suffix = (\<lambda>p. dropWhile (\<lambda>c. c \<noteq> CHR ''.'') p),
       path_name = (\<lambda>p. p),
       read_csv = (\<lambda>p sep. Inr df),
       read_excel = (\<lambda>p sh. Inr df),
       repr_str = (\<lambda>s. [CHR 0x27] @ s @ [CHR 0x27]) \<rparr>"

definition example_df :: dataframe where
  "example_df =
     \<lparr> table = [(LStr ''id'', [Str ''1'', Str ''2'', Str ''3'']),
                (LStr ''Gene_Symbol'', [Str '' tp53 '', NaN, Str ''Mdm2'']),
                (LStr ''score'', [Str ''0.5'', Str ''0.1'', NaN])],
       n_rows = 3 \<rparr>"

definition plain_df :: dataframe where
  "plain_df =
     \<lparr> table = [(LStr ''id'', [Str ''brca1'', Str ''egfr'']), (LStr ''note'', [NaN, Str ''x''])],
       n_rows = 2 \<rparr>"

definition empty_df :: dataframe where
  "empty_df = \<lparr> table = [], n_rows = 0 \<rparr>"

text \<open>A worksheet whose header row is the number 2024 and the text \<open>Gene_Symbol\<close>.\<close>

definition numeric_header_df :: dataframe where
  "numeric_header_df =
     \<lparr> table = [(LInt 2024, [Str ''1.5'', Str ''2.5'']),
                (LStr ''Gene_Symbol'', [Str ''tp53'', Str ''mdm2''])],
       n_rows = 2 \<rparr>"

section \<open>stringdb.py: the pair-interaction request\<close>

text \<open>
  A request is what the code hands to \<open>client.get\<close>: the URL, the \<open>params\<close> dictionary in
  insertion order and the timeout in seconds. The transport is a parameter: it answers a
  request with the parsed JSON body, or raises (\<open>Inl\<close> with the exception's text), in which
  case the function prints the error and returns \<open>None\<close>.
\<close>

datatype param = PStr string | PInt int

record request =
  req_url :: string
  req_params :: "(string \<times> param) list"
  req_timeout :: nat

definition STRING_API_URL :: string where
  "STRING_API_URL = ''https://string-db.org/api''"

definition get_interaction_request :: "string \<Rightarrow> string \<Rightarrow> int \<Rightarrow> request" where
  "get_interaction_request gene_a gene_b species =
     \<lparr> req_url = STRING_API_URL @ ''/json/network'',
       req_params =
         [(''identifiers'', PStr (gene_a @ ''%0d'' @ gene_b)),
          (''species'', PInt species),
          (''caller_identity'', PStr ''pathway-mcp-agent'')],
       req_timeout = 30 \<rparr>"

definition get_interaction ::
  "(request \<Rightarrow> string + 'r) \<Rightarrow> string \<Rightarrow> string \<Rightarrow> int \<Rightarrow> 'r option" where
  "get_interaction client gene_a gene_b species =
     (case client (get_interaction_request gene_a gene_b species) of
        Inr json \<Rightarrow> Some json
      | Inl e \<Rightarrow> None)"

section \<open>stringdb.py: score banding\<close>

text \<open>
  \<open>format_score\<close> renders a score with three fraction digits and appends the confidence
  band. The rendering \<open>f"{score:.3f}"\<close> of a float is the parameter \<open>fmt3f\<close>; the comparisons
  against the thresholds are the code's, on the score's numeric value.
\<close>

definition format_score :: "(real \<Rightarrow> string) \<Rightarrow> real \<Rightarrow> string" where
  "format_score fmt3f score =
     (if score \<ge> 0.9 then fmt3f score @ '' (highest confidence)''
      else if score \<ge> 0.7 then fmt3f score @ '' (high confidence)''
      else if score \<ge> 0.4 then fmt3f score @ '' (medium confidence)''
      else fmt3f score @ '' (low confidence)'')"

section \<open>server.py: the enrichment report\<close>

text \<open>
  An enrichment term is the positional record of the enrichment service; the code reads
  positions 1, 2 and 5 (name, p-value, overlapping genes). A JSON object is an association
  list. The two calls to the enrichment service are parameters, and so is the rendering
  \<open>f"{p_value:.2e}"\<close> of a float.
\<close>

record enrich_term =
  term_rank :: int
  term_name :: string
  p_value :: real
  z_score :: real
  combined_score :: real
  genes :: "string list"

datatype jval = JInt int | JStr string

record services =
  submit_gene_list :: "string list \<Rightarrow> (string \<times> jval) list option"
  get_enrichment :: "jval \<Rightarrow> string \<Rightarrow> (string \<times> enrich_term list) list option"

text \<open>\<open>xs[:n]\<close>: a negative \<open>n\<close> counts from the end.\<close>

definition slice_to :: "int \<Rightarrow> 'a list \<Rightarrow> 'a list" where
  "slice_to n xs = (if 0 \<le> n then take (nat n) xs else take (length xs - nat (- n)) xs)"

definition newline :: string where
  "newline = [CHR 0x0A]"

text \<open>The three lines the loop appends for the term numbered \<open>i\<close>.\<close>

definition term_entry :: "(real \<Rightarrow> string) \<Rightarrow> nat \<Rightarrow> enrich_term \<Rightarrow> string list" where
  "term_entry fmt2e i t =
     [str_nat i @ ''. **'' @ term_name t @ ''**'',
      ''   - P-value: '' @ fmt2e (p_value t),
      ''   - gene: '' @ str_join '', '' (genes t)]"

definition report_lines ::
  "(real \<Rightarrow> string) \<Rightarrow> string list \<Rightarrow> string \<Rightarrow> enrich_term list \<Rightarrow> int \<Rightarrow> string list" where
  "report_lines fmt2e gene_list database all_terms top_n =
     (let terms = slice_to top_n all_terms in
      [''Enrichr result for '' @ database,
       ''Database: '' @ database,
       ''Gene count: '' @ str_nat (length gene_list),
       ''Enriched term count: '' @ str_nat (length all_terms),
       ''Top '' @ str_int top_n @ '' terms:'']
      @ concat (map (\<lambda>(i, t). term_entry fmt2e i t) (enumerate 1 terms)))"

definition perform_enrichment ::
  "services \<Rightarrow> (real \<Rightarrow> string) \<Rightarrow> string list \<Rightarrow> string \<Rightarrow> int \<Rightarrow> py_error + string" where
  "perform_enrichment S fmt2e gene_list database top_n =
     (case submit_gene_list S gene_list of
        None \<Rightarrow> Inr ''Error: Failed to submit the gene list to Enrichr''
      | Some submit_result \<Rightarrow>
          if submit_result = [] then Inr ''Error: Failed to submit the gene list to Enrichr''
          else
            (case map_of submit_result ''userListId'' of
               None \<Rightarrow> Inl (KeyError ''userListId'')
             | Some user_list_id \<Rightarrow>
                (case get_enrichment S user_list_id database of
                   None \<Rightarrow> Inr ''Error: Failed to get the enrichment results from Enrichr''
                 | Some enrichment_result \<Rightarrow>
                    (case map_of enrichment_result database of
                       None \<Rightarrow> Inr ''Error: Failed to get the enrichment results from Enrichr''
                     | Some all_terms \<Rightarrow>
                         Inr (str_join newline
                                (report_lines fmt2e gene_list database all_terms top_n))))))"

section \<open>server.py: the pair-interaction report\<close>

text \<open>
  An edge of the interaction service's answer: the two endpoint names and the combined
  score, each possibly absent from the JSON object, and the evidence channels present.
\<close>

record edge =
  preferredName_A :: "string option"
  preferredName_B :: "string option"
  score :: "real option"
  channels :: "(string \<times> real) list"





section \<open>visualization.py: the bar chart\<close>

text \<open>
  The chart handed to the plotting library: the labels, the bar lengths, the values given
  to the colour map, the figure height and the gene-count annotations. The effects on the
  file system are returned as a list of actions. \<open>Path.cwd()\<close>, the path operator \<open>/\<close>,
  \<open>Path.parent\<close> and \<open>Path.absolute()\<close> are parameters.
\<close>

record chart =
  bar_names :: "string list"
  bar_lengths :: "real list"
  bar_colors :: "real list"
  fig_height :: real
  count_labels :: "string list"
  chart_title :: string

datatype action = Mkdir string | Savefig string chart

record paths =
  cwd :: string
  path_join :: "string \<Rightarrow> string \<Rightarrow> string"
  parent :: "string \<Rightarrow> string"
  absolute :: "string \<Rightarrow> string"

text \<open>\<open>[p / max_val for p in neg_log_p]\<close>: a division by zero raises.\<close>

fun normalize_by :: "real \<Rightarrow> real list \<Rightarrow> py_error + real list" where
  "normalize_by max_val [] = Inr []"
| "normalize_by max_val (p # ps) =
     (if max_val = 0 then Inl ZeroDivisionError
      else case normalize_by max_val ps of
             Inl e \<Rightarrow> Inl e
           | Inr cs \<Rightarrow> Inr (p / max_val # cs))"

definition create_enrichment_barplot ::
  "paths \<Rightarrow> enrich_term list \<Rightarrow> string \<Rightarrow> string option \<Rightarrow> py_error + (string \<times> action list)" where
  "create_enrichment_barplot P terms title output_path =
     (if terms = [] then Inr (''No terms to plot'', [])
      else
        let names = map (\<lambda>t. let name = term_name t in
                               if length name > 45 then take 42 name @ ''...'' else name) terms;
            p_values = map p_value terms;
            gene_counts = map (\<lambda>t. length (genes t)) terms;
            neg_log_p = map (\<lambda>p. if p > 0 then - log 10 p else 0) p_values;
            max_val = (case neg_log_p of [] \<Rightarrow> 1 | x # xs \<Rightarrow> fold max xs x)
        in case normalize_by max_val neg_log_p of
             Inl e \<Rightarrow> Inl e
           | Inr colors \<Rightarrow>
               let fig = \<lparr> bar_names = names, bar_lengths = neg_log_p, bar_colors = colors,
                           fig_height = max 6 (real (length terms) * 0.5),
                           count_labels = map (\<lambda>count. str_nat count @ '' genes'') gene_counts,
                           chart_title = title \<rparr>
               in (case output_path of
                     None \<Rightarrow>
                       let out = path_join P (cwd P) ''enrichment_plot.png''
                       in Inr (absolute P out, [Savefig out fig])
                   | Some out \<Rightarrow>
                       Inr (absolute P out, [Mkdir (parent P out), Savefig out fig])))"

section \<open>Concrete inputs\<close>

text \<open>
  Three ranked terms and an enrichment service that registers any gene list under the
  identifier 42 and answers for the database \<open>KEGG_2021_Human\<close>.
\<close>

definition example_terms :: "enrich_term list" where
  "example_terms =
     [\<lparr> term_rank = 1, term_name = ''p53 signaling pathway'', p_value = 0.0001,
         z_score = 5, combined_score = 90, genes = [''TP53'', ''MDM2''] \<rparr>,
      \<lparr> term_rank = 2, term_name = ''Cell cycle'', p_value = 0.002,
         z_score = 4, combined_score = 50, genes = [''TP53''] \<rparr>,
      \<lparr> term_rank = 3, term_name = ''ErbB signaling pathway'', p_value = 0.03,
         z_score = 2, combined_score = 10, genes = [''EGFR''] \<rparr>]"

definition example_services :: services where
  "example_services =
     \<lparr> submit_gene_list = (\<lambda>gs. Some [(''userListId'', JInt 42), (''shortId'', JStr ''abc'')]),
       get_enrichment = (\<lambda>uid db. if uid = JInt 42 \<and> db = ''KEGG_2021_Human''
                                     then Some [(''KEGG_2021_Human'', example_terms)] else None) \<rparr>"

text \<open>A term whose p-value is 0 and a term whose p-value is 1.\<close>

definition zero_p_term :: enrich_term where
  "zero_p_term =
     \<lparr> term_rank = 1, term_name = ''Apoptosis'', p_value = 0,
       z_score = 0, combined_score = 0, genes = [''TP53''] \<rparr>"

definition unit_p_term :: enrich_term where
  "unit_p_term =
     \<lparr> term_rank = 1, term_name = ''Apoptosis'', p_value = 1,
       z_score = 0, combined_score = 0, genes = [''TP53''] \<rparr>"

definition example_paths :: paths where
  "example_paths =
     \<lparr> cwd = ''/work'',
       path_join = (\<lambda>d f. d @ ''/'' @ f),
       parent = (\<lambda>p. rev (drop 1 (dropWhile (\<lambda>c. c \<noteq> CHR ''/'') (rev p)))),
       absolute = (\<lambda>p. p) \<rparr>"


section \<open>Properties\<close>

text \<open>
  Claim C4. The score banding maps every score to exactly one band, with the lower bound
  of each band inclusive: at least 0.9 is highest confidence, from 0.7 up to but excluding
  0.9 is high confidence, from 0.4 up to but excluding 0.7 is medium confidence, below 0.4
  is low confidence; in particular 0.9, 0.7 and 0.4 fall in the highest, high and medium
  band.
\<close>

theorem format_score_bands:
  "(0.9 \<le> s \<longrightarrow> format_score fmt s = fmt s @ '' (highest confidence)'') \<and>
   (0.7 \<le> s \<and> s < 0.9 \<longrightarrow> format_score fmt s = fmt s @ '' (high confidence)'') \<and>
   (0.4 \<le> s \<and> s < 0.7 \<longrightarrow> format_score fmt s = fmt s @ '' (medium confidence)'') \<and>
   (s < 0.4 \<longrightarrow> format_score fmt s = fmt s @ '' (low confidence)'') \<and>
   format_score fmt 0.9 = fmt 0.9 @ '' (highest confidence)'' \<and>
   format_score fmt 0.7 = fmt 0.7 @ '' (high confidence)'' \<and>
   format_score fmt 0.4 = fmt 0.4 @ '' (medium confidence)''"
  unfolding format_score_def by auto

theorem format_score_bands_witness:
  "format_score (\<lambda>_. ''0.950'') 0.95 = ''0.950 (highest confidence)'' \<and>
   format_score (\<lambda>_. ''0.750'') 0.75 = ''0.750 (high confidence)'' \<and>
   format_score (\<lambda>_. ''0.500'') 0.5 = ''0.500 (medium confidence)'' \<and>
   format_score (\<lambda>_. ''0.100'') 0.1 = ''0.100 (low confidence)''"
  using format_score_bands [where s = "0.95" and fmt = "\<lambda>_. ''0.950''"]
        format_score_bands [where s = "0.75" and fmt = "\<lambda>_. ''0.750''"]
        format_score_bands [where s = "0.5" and fmt = "\<lambda>_. ''0.500''"]
        format_score_bands [where s = "0.1" and fmt = "\<lambda>_. ''0.100''"]
  by simp

subsection \<open>The gene-list normalization\<close>

lemma isspace_upper_char: "isspace (upper_char c) = isspace c"
  by (auto simp: isspace_def upper_char_def Let_def)

lemma upper_char_idem: "upper_char (upper_char c) = upper_char c"
  by (auto simp: upper_char_def Let_def)

lemma str_upper_idem: "str_upper (str_upper s) = str_upper s"
  by (simp add: str_upper_def upper_char_idem)

lemma dropWhile_isspace_upper:
  "dropWhile isspace (map upper_char s) = map upper_char (dropWhile isspace s)"
  by (induction s) (simp_all add: isspace_upper_char)

lemma str_strip_upper: "str_strip (str_upper s) = str_upper (str_strip s)"
  by (simp add: str_strip_def str_upper_def dropWhile_isspace_upper rev_map)

text \<open>Stripping the end of a string whose first character stays leaves that first character.\<close>

lemma dropWhile_rev_dropWhile:
  "dropWhile P (rev (dropWhile P (rev t))) = rev (dropWhile P (rev t))" if "t = [] \<or> \<not> P (hd t)"
proof (cases "dropWhile P (rev t) = []")
  case True
  then show ?thesis by (simp only: rev.simps dropWhile.simps)
next
  case False
  then have "rev t \<noteq> []" by auto
  then have t: "t \<noteq> []" by simp
  with that have nP: "\<not> P (hd t)" by simp
  have "last (dropWhile P (rev t)) = last (rev t)"
    using False by (metis last_appendR takeWhile_dropWhile_id)
  also have "\<dots> = hd t" using t by (simp add: last_rev)
  finally have "hd (rev (dropWhile P (rev t))) = hd t"
    using False by (simp add: hd_rev)
  with nP False show ?thesis
    by (cases "rev (dropWhile P (rev t))") auto
qed

lemma str_strip_idem: "str_strip (str_strip s) = str_strip s"
proof -
  have h: "dropWhile isspace s = [] \<or> \<not> isspace (hd (dropWhile isspace s))"
    by (metis hd_dropWhile)
  have "dropWhile isspace (rev (dropWhile isspace (rev (dropWhile isspace s))))
          = rev (dropWhile isspace (rev (dropWhile isspace s)))"
    using h by (rule dropWhile_rev_dropWhile [where t = "dropWhile isspace s" and P = isspace])
  then show ?thesis
    by (simp add: str_strip_def)
qed

lemma normalize_genes_eq:
  "normalize_genes cells =
     filter (\<lambda>g. g \<noteq> [] \<and> g \<noteq> ''NAN'')
       (map (\<lambda>c. str_upper (str_strip (astype_str c))) (dropna cells))"
  by (simp add: normalize_genes_def Let_def comp_def)

lemma count_list_filter_keep: "P g \<Longrightarrow> count_list (filter P xs) g = count_list xs g"
  by (induction xs) auto

text \<open>
  Claim C2. For every sequence of raw cells, the normalized gene list is no longer than
  the input; each of its elements is upper-case (\<open>upper\<close> leaves it unchanged), has no
  leading or trailing whitespace (\<open>strip\<close> leaves it unchanged) and is neither the empty
  string nor \<open>NAN\<close>; it is the sequence of the normalized non-missing inputs with some
  elements deleted, so the survivors keep their order; and every value other than the
  empty string and \<open>NAN\<close> occurs in it as often as among the normalized inputs, so
  duplicates are kept.
\<close>

theorem normalize_genes_spec:
  "length (normalize_genes cells) \<le> length cells \<and>
   (\<forall>g \<in> set (normalize_genes cells).
      str_upper g = g \<and> str_strip g = g \<and> g \<noteq> '''' \<and> g \<noteq> ''NAN'') \<and>
   subseq (normalize_genes cells)
     (map (\<lambda>c. str_upper (str_strip (astype_str c))) (dropna cells)) \<and>
   (\<forall>g. g \<noteq> '''' \<and> g \<noteq> ''NAN'' \<longrightarrow>
      count_list (normalize_genes cells) g =
      count_list (map (\<lambda>c. str_upper (str_strip (astype_str c))) (dropna cells)) g)"
proof (intro conjI)
  have "length (normalize_genes cells) \<le> length (dropna cells)"
    unfolding normalize_genes_eq by (rule order_trans [OF length_filter_le]) simp
  also have "\<dots> \<le> length cells" by (simp add: dropna_def)
  finally show "length (normalize_genes cells) \<le> length cells" .
next
  show "\<forall>g \<in> set (normalize_genes cells).
      str_upper g = g \<and> str_strip g = g \<and> g \<noteq> '''' \<and> g \<noteq> ''NAN''"
    unfolding normalize_genes_eq
    by (auto simp: str_upper_idem str_strip_upper str_strip_idem)
next
  show "subseq (normalize_genes cells)
     (map (\<lambda>c. str_upper (str_strip (astype_str c))) (dropna cells))"
    unfolding normalize_genes_eq by (rule subseq_filter_left)
next
  show "\<forall>g. g \<noteq> '''' \<and> g \<noteq> ''NAN'' \<longrightarrow>
      count_list (normalize_genes cells) g =
      count_list (map (\<lambda>c. str_upper (str_strip (astype_str c))) (dropna cells)) g"
    unfolding normalize_genes_eq by (intro allI impI count_list_filter_keep) simp
qed

theorem normalize_genes_spec_witness:
  "normalize_genes [Str '' tp53 '', NaN, Str ''nan'', Str '''', Str ''Mdm2'', Str ''tp53'']
     = [''TP53'', ''MDM2'', ''TP53''] \<and>
   ''TP53'' \<in> set (normalize_genes [Str '' tp53 '', NaN, Str ''nan'', Str '''', Str ''Mdm2'', Str ''tp53'']) \<and>
   str_upper ''TP53'' = ''TP53'' \<and> str_strip ''TP53'' = ''TP53'' \<and>
   ''TP53'' \<noteq> '''' \<and> ''TP53'' \<noteq> ''NAN'' \<and>
   count_list (normalize_genes [Str '' tp53 '', NaN, Str ''nan'', Str '''', Str ''Mdm2'', Str ''tp53'']) ''TP53''
     = count_list (map (\<lambda>c. str_upper (str_strip (astype_str c)))
         (dropna [Str '' tp53 '', NaN, Str ''nan'', Str '''', Str ''Mdm2'', Str ''tp53''])) ''TP53''"
proof -
  let ?cells = "[Str '' tp53 '', NaN, Str ''nan'', Str '''', Str ''Mdm2'', Str ''tp53'']"
  have e: "normalize_genes ?cells = [''TP53'', ''MDM2'', ''TP53'']"
    by code_simp
  then have m: "''TP53'' \<in> set (normalize_genes ?cells)"
    by simp
  have n: "''TP53'' \<noteq> '''' \<and> ''TP53'' \<noteq> ''NAN''"
    by simp
  from normalize_genes_spec [of ?cells] m n e show ?thesis
    by blast
qed

subsection \<open>Column resolution\<close>

lemma lowered_common_names: "set (map str_lower common_names) = set spec_aliases"
  by code_simp

lemma is_alias_test:
  "(col \<in> set common_names \<or> str_lower col \<in> set (map str_lower common_names))
     = is_alias (LStr col)"
  using lowered_common_names by auto

lemma detect_in_LStr:
  "detect_in (LStr col # cols) =
     (if is_alias (LStr col) then Inr (Some (LStr col)) else detect_in cols)"
  by (simp only: detect_in.simps is_alias_test)

lemma detect_in_first:
  "cols = pre @ c # post \<Longrightarrow> \<forall>x \<in> set pre. is_str x \<and> \<not> is_alias x \<Longrightarrow> is_alias c
     \<Longrightarrow> detect_in cols = Inr (Some c)"
proof (induction pre arbitrary: cols)
  case Nil
  then show ?case
    by (cases c) (simp_all add: detect_in_LStr del: detect_in.simps(2))
next
  case (Cons x pre)
  then show ?case
    by (cases x) (simp_all add: detect_in_LStr del: detect_in.simps(2))
qed

lemma detect_in_none:
  "\<forall>x \<in> set cols. is_str x \<and> \<not> is_alias x \<Longrightarrow> detect_in cols = Inr None"
proof (induction cols)
  case Nil
  then show ?case by simp
next
  case (Cons x cols)
  then show ?case
    by (cases x) (simp_all add: detect_in_LStr del: detect_in.simps(2))
qed

lemma detect_in_mem: "detect_in cols = Inr (Some c) \<Longrightarrow> c \<in> set cols"
  by (induction cols rule: detect_in.induct) (auto split: if_splits)

lemma detect_in_error: "detect_in cols = Inl e \<Longrightarrow> e = AttributeError"
  by (induction cols rule: detect_in.induct) (auto split: if_splits)

lemma detect_in_str: "\<forall>x \<in> set cols. is_str x \<Longrightarrow> \<exists>r. detect_in cols = Inr r"
proof (induction cols)
  case Nil
  then show ?case by simp
next
  case (Cons x cols)
  then show ?case
    by (cases x) simp_all
qed

lemma map_of_columns: "(map_of (table df) c = None) = (c \<notin> set (columns df))"
  by (simp add: columns_def map_of_eq_None_iff)

lemma resolve_column_auto_mem:
  "resolve_column df None = Inr c \<Longrightarrow> c \<in> set (columns df)"
  unfolding resolve_column_def detect_gene_column_def
  by (auto split: sum.splits option.splits list.splits dest: detect_in_mem)

lemma resolve_column_auto_error:
  "resolve_column df None = Inl e \<Longrightarrow> e = AttributeError \<or> (e = IndexError \<and> columns df = [])"
  unfolding resolve_column_def detect_gene_column_def
  by (auto split: sum.splits option.splits list.splits dest: detect_in_error)

lemma resolve_column_auto_str:
  assumes "columns df \<noteq> []" "\<forall>x \<in> set (columns df). is_str x"
  shows "\<exists>c. resolve_column df None = Inr c \<and> c \<in> set (columns df)"
proof -
  from detect_in_str [OF assms(2)] obtain r where r: "detect_in (columns df) = Inr r"
    by blast
  with assms(1) obtain c where "resolve_column df None = Inr c"
    unfolding resolve_column_def detect_gene_column_def
    by (cases r; cases "columns df") auto
  then show ?thesis
    using resolve_column_auto_mem by blast
qed

lemma read_gene_list_resolved:
  assumes "path_exists E p" "load_table E p sh = Inr df"
      "resolve_column df gc = Inr c" "c \<in> set (columns df)"
  shows "\<exists>cells. map_of (table df) c = Some cells \<and>
     read_gene_list E p gc sh =
       Inr (normalize_genes cells,
            \<lparr> md_file = path_name E p, md_total_rows = n_rows df, md_gene_column = c,
              md_gene_count = length (normalize_genes cells), md_columns = columns df \<rparr>)"
proof -
  from assms(4) obtain cells where "map_of (table df) c = Some cells"
    using map_of_columns [of df c] by (cases "map_of (table df) c") auto
  with assms(1-3) show ?thesis
    by (simp add: read_gene_list_def Let_def)
qed

lemma load_example: "load_table (example_env df) ''genes.csv'' sh = Inr df"
  by (simp add: load_table_def example_env_def str_lower_def lower_char_def)

lemma exists_example: "path_exists (example_env df) ''genes.csv''"
  by (simp add: example_env_def)

text \<open>
  On a table whose labels before the chosen one are strings, the extraction without an
  explicit column name returns the genes of the first alias column, or of the first
  column when no label is an alias.
\<close>

lemma column_resolution_str_labels:
  assumes "path_exists E p" and "load_table E p sh = Inr df"
  shows "(columns df = pre @ c # post \<and> (\<forall>x \<in> set pre. is_str x \<and> \<not> is_alias x) \<and> is_alias c
          \<longrightarrow> (\<exists>cells. map_of (table df) c = Some cells \<and>
                read_gene_list E p None sh =
                  Inr (normalize_genes cells,
                       \<lparr> md_file = path_name E p, md_total_rows = n_rows df, md_gene_column = c,
                         md_gene_count = length (normalize_genes cells),
                         md_columns = columns df \<rparr>))) \<and>
         (columns df = c # post \<and> (\<forall>x \<in> set (columns df). is_str x \<and> \<not> is_alias x)
          \<longrightarrow> (\<exists>cells. map_of (table df) c = Some cells \<and>
                read_gene_list E p None sh =
                  Inr (normalize_genes cells,
                       \<lparr> md_file = path_name E p, md_total_rows = n_rows df, md_gene_column = c,
                         md_gene_count = length (normalize_genes cells),
                         md_columns = columns df \<rparr>)))"
proof (intro conjI impI)
  assume a: "columns df = pre @ c # post \<and> (\<forall>x \<in> set pre. is_str x \<and> \<not> is_alias x) \<and> is_alias c"
  then have "detect_gene_column df = Inr (Some c)"
    unfolding detect_gene_column_def
    by (intro detect_in_first [where pre = pre and post = post]) simp_all
  then have r: "resolve_column df None = Inr c"
    by (simp add: resolve_column_def)
  from a have "c \<in> set (columns df)" by simp
  with r show "\<exists>cells. map_of (table df) c = Some cells \<and>
                read_gene_list E p None sh =
                  Inr (normalize_genes cells,
                       \<lparr> md_file = path_name E p, md_total_rows = n_rows df, md_gene_column = c,
                         md_gene_count = length (normalize_genes cells),
                         md_columns = columns df \<rparr>)"
    by (intro read_gene_list_resolved [OF assms])
next
  assume a: "columns df = c # post \<and> (\<forall>x \<in> set (columns df). is_str x \<and> \<not> is_alias x)"
  then have "detect_gene_column df = Inr None"
    unfolding detect_gene_column_def by (intro detect_in_none) simp
  with a have r: "resolve_column df None = Inr c"
    by (simp add: resolve_column_def)
  from a have "c \<in> set (columns df)" by simp
  with r show "\<exists>cells. map_of (table df) c = Some cells \<and>
                read_gene_list E p None sh =
                  Inr (normalize_genes cells,
                       \<lparr> md_file = path_name E p, md_total_rows = n_rows df, md_gene_column = c,
                         md_gene_count = length (normalize_genes cells),
                         md_columns = columns df \<rparr>)"
    by (intro read_gene_list_resolved [OF assms])
qed

text \<open>
  Claim C7 does not hold of the code. A worksheet with a numeric header cell before the
  column \<open>Gene_Symbol\<close> parses to a table whose first label is a number; the detection
  loop calls \<open>lower\<close> on it and raises \<open>AttributeError\<close>, so \<open>Gene_Symbol\<close> is not
  selected. The same happens, instead of the fallback to the first column, on a table
  without alias column that has a numeric label.
\<close>

theorem column_resolution_numeric_header:
  "path_exists (example_env numeric_header_df) ''genes.xlsx'' \<and>
   load_table (example_env numeric_header_df) ''genes.xlsx'' (SheetIndex 0)
     = Inr numeric_header_df \<and>
   columns numeric_header_df = [LInt 2024, LStr ''Gene_Symbol''] \<and>
   read_gene_list (example_env numeric_header_df) ''genes.xlsx'' None (SheetIndex 0)
     = Inl AttributeError \<and>
   read_gene_list
       (example_env \<lparr> table = [(LStr ''id'', [Str ''tp53'']), (LInt 2024, [Str ''1.5''])],
                      n_rows = 1 \<rparr>)
       ''genes.xlsx'' None (SheetIndex 0)
     = Inl AttributeError"
  by code_simp

subsection \<open>Errors of the extraction\<close>

lemma load_table_error:
  "load_table E p sh = Inl e \<Longrightarrow>
     (\<exists>m. e = PandasError m) \<or> e = ValueError (''Unsupported file format: '' @ str_lower (path_suffix E p))"
  unfolding load_table_def Let_def
  by (auto split: if_splits sum.splits simp: map_sum_def)

lemma load_table_unsupported:
  "str_lower (path_suffix E p) \<notin> set [''.csv'', ''.tsv'', ''.txt'', ''.xls'', ''.xlsx''] \<Longrightarrow>
   load_table E p sh = Inl (ValueError (''Unsupported file format: '' @ str_lower (path_suffix E p)))"
  by (simp add: load_table_def Let_def)

lemma sublist_prepend: "sublist x t \<Longrightarrow> sublist x (a @ t)"
proof -
  assume "sublist x t"
  then obtain ps ss where "t = ps @ x @ ss"
    by (auto simp: sublist_def)
  then have "a @ t = (a @ ps) @ x @ ss"
    by simp
  then show ?thesis
    unfolding sublist_def by blast
qed

lemma sublist_extend: "sublist x t \<Longrightarrow> sublist x (t @ b)"
proof -
  assume "sublist x t"
  then obtain ps ss where "t = ps @ x @ ss"
    by (auto simp: sublist_def)
  then have "t @ b = ps @ x @ (ss @ b)"
    by simp
  then show ?thesis
    unfolding sublist_def by blast
qed

lemma sublist_str_join:
  "x \<in> set xs \<Longrightarrow> sublist x (str_join sep xs)"
proof (induction sep xs rule: str_join.induct)
  case (1 sep)
  then show ?case by simp
next
  case (2 sep y)
  then show ?case by simp
next
  case (3 sep y z zs)
  show ?case
  proof (cases "x = y")
    case True
    then show ?thesis by simp
  next
    case False
    with 3 have "sublist x (str_join sep (z # zs))" by simp
    then have "sublist x ((y @ sep) @ str_join sep (z # zs))"
      by (rule sublist_prepend)
    then show ?thesis by simp
  qed
qed

lemma repr_list_enumerates:
  "c \<in> set cols \<Longrightarrow> sublist (repr_label E c) (repr_list E cols)"
proof -
  assume "c \<in> set cols"
  then have "repr_label E c \<in> set (map (repr_label E) cols)"
    by simp
  then have "sublist (repr_label E c) (str_join '', '' (map (repr_label E) cols))"
    by (rule sublist_str_join)
  then have "sublist (repr_label E c) (''['' @ (str_join '', '' (map (repr_label E) cols) @ '']''))"
    by (intro sublist_prepend sublist_extend)
  then show ?thesis
    by (simp add: repr_list_def)
qed

text \<open>
  Claim C10. Whatever the file and the table are, the extraction without an explicit
  column name never raises the column-does-not-exist error; the result of the
  auto-detection (an alias column, or else the first column) is a column of the table;
  and with that result the extraction returns normally, reporting it as the chosen
  column.
\<close>

theorem auto_detection_never_column_error:
  "(\<forall>c cols. read_gene_list E p None sh \<noteq>
      Inl (ValueError (''Column '' @ [CHR 0x27] @ c @ [CHR 0x27]
            @ '' does not exist. Available columns: '' @ cols))) \<and>
   (resolve_column df None = Inr col \<longrightarrow> col \<in> set (columns df)) \<and>
   (path_exists E p \<and> load_table E p sh = Inr df \<and> resolve_column df None = Inr col
    \<longrightarrow> (\<exists>cells. map_of (table df) col = Some cells \<and>
          read_gene_list E p None sh =
            Inr (normalize_genes cells,
                 \<lparr> md_file = path_name E p, md_total_rows = n_rows df, md_gene_column = col,
                   md_gene_count = length (normalize_genes cells),
                   md_columns = columns df \<rparr>)))"
proof (intro conjI impI allI)
  assume "resolve_column df None = Inr col"
  then show "col \<in> set (columns df)"
    by (rule resolve_column_auto_mem)
next
  assume a: "path_exists E p \<and> load_table E p sh = Inr df \<and> resolve_column df None = Inr col"
  then have e: "path_exists E p" and l: "load_table E p sh = Inr df"
    and r: "resolve_column df None = Inr col"
    by simp_all
  from r have "col \<in> set (columns df)"
    by (rule resolve_column_auto_mem)
  with r show "\<exists>cells. map_of (table df) col = Some cells \<and>
          read_gene_list E p None sh =
            Inr (normalize_genes cells,
                 \<lparr> md_file = path_name E p, md_total_rows = n_rows df, md_gene_column = col,
                   md_gene_count = length (normalize_genes cells),
                   md_columns = columns df \<rparr>)"
    by (intro read_gene_list_resolved [OF e l])
next
  fix c cols
  let ?err = "Inl (ValueError (''Column '' @ [CHR 0x27] @ c @ [CHR 0x27]
            @ '' does not exist. Available columns: '' @ cols)) :: py_error + (string list \<times> metadata)"
  show "read_gene_list E p None sh \<noteq> ?err"
  proof (cases "path_exists E p")
    case False
    then show ?thesis by (simp add: read_gene_list_def)
  next
    case True
    show ?thesis
    proof (cases "load_table E p sh")
      case (Inl e)
      with True have r: "read_gene_list E p None sh = Inl e"
        by (simp add: read_gene_list_def)
      from load_table_error [OF Inl] show ?thesis
        unfolding r by auto
    next
      case (Inr df')
      show ?thesis
      proof (cases "resolve_column df' None")
        case e: (Inl e)
        with True Inr have r: "read_gene_list E p None sh = Inl e"
          by (simp add: read_gene_list_def)
        from resolve_column_auto_error [OF e] show ?thesis
          unfolding r by auto
      next
        case c: (Inr c')
        then have "c' \<in> set (columns df')"
          by (rule resolve_column_auto_mem)
        from read_gene_list_resolved [OF True Inr c this] obtain r
          where "read_gene_list E p None sh = Inr r"
          by blast
        then show ?thesis
          by simp
      qed
    qed
  qed
qed

theorem auto_detection_never_column_error_witness:
  "path_exists (example_env example_df) ''genes.csv'' \<and>
   load_table (example_env example_df) ''genes.csv'' (SheetIndex 0) = Inr example_df \<and>
   columns example_df \<noteq> [] \<and>
   resolve_column example_df None = Inr (LStr ''Gene_Symbol'') \<and>
   LStr ''Gene_Symbol'' \<in> set (columns example_df) \<and>
   (\<exists>cells. map_of (table example_df) (LStr ''Gene_Symbol'') = Some cells \<and>
      read_gene_list (example_env example_df) ''genes.csv'' None (SheetIndex 0) =
        Inr (normalize_genes cells,
             \<lparr> md_file = path_name (example_env example_df) ''genes.csv'',
               md_total_rows = n_rows example_df, md_gene_column = LStr ''Gene_Symbol'',
               md_gene_count = length (normalize_genes cells),
               md_columns = columns example_df \<rparr>))"
proof -
  have c: "columns example_df \<noteq> []"
    by (simp add: columns_def example_df_def)
  have r: "resolve_column example_df None = Inr (LStr ''Gene_Symbol'')"
    by code_simp
  from auto_detection_never_column_error [of "example_env example_df" "''genes.csv''"
      "SheetIndex 0" example_df "LStr ''Gene_Symbol''"] exists_example [of example_df]
    load_example [of example_df "SheetIndex 0"] c r
  show ?thesis
    by blast
qed

text \<open>
  Claim C5, as amended. The extraction raises \<open>FileNotFoundError\<close> when the path does
  not exist; \<open>ValueError\<close> for an unsupported format when the file exists and its
  lower-cased suffix is none of \<open>.csv\<close>, \<open>.tsv\<close>, \<open>.txt\<close>, \<open>.xls\<close>, \<open>.xlsx\<close>;
  \<open>ValueError\<close> for a missing column, with a message that contains the \<open>repr\<close> of
  every column label of the table, when an explicit column name is not a label of the
  parsed table; and it raises nothing when the file parses to a table with at least one
  column and either the explicit column name is a label of it or, no name being given,
  all its labels are strings.
\<close>

theorem read_gene_list_errors:
  "(\<not> path_exists E p \<longrightarrow>
      read_gene_list E p gc sh = Inl (FileNotFoundError (''File not found: '' @ p))) \<and>
   (path_exists E p \<and>
      str_lower (path_suffix E p) \<notin> set [''.csv'', ''.tsv'', ''.txt'', ''.xls'', ''.xlsx'']
    \<longrightarrow> read_gene_list E p gc sh =
          Inl (ValueError (''Unsupported file format: '' @ str_lower (path_suffix E p)))) \<and>
   (path_exists E p \<and> load_table E p sh = Inr df \<and> LStr c \<notin> set (columns df)
    \<longrightarrow> read_gene_list E p (Some c) sh =
          Inl (ValueError (''Column '' @ [CHR 0x27] @ c @ [CHR 0x27]
                 @ '' does not exist. Available columns: '' @ repr_list E (columns df)))
        \<and> (\<forall>x \<in> set (columns df). sublist (repr_label E x) (repr_list E (columns df)))) \<and>
   (path_exists E p \<and> load_table E p sh = Inr df \<and> columns df \<noteq> []
      \<and> (\<forall>x. gc = Some x \<longrightarrow> LStr x \<in> set (columns df))
      \<and> (gc = None \<longrightarrow> (\<forall>x \<in> set (columns df). is_str x))
    \<longrightarrow> (\<exists>r. read_gene_list E p gc sh = Inr r))"
proof (intro conjI impI)
  assume "\<not> path_exists E p"
  then show "read_gene_list E p gc sh = Inl (FileNotFoundError (''File not found: '' @ p))"
    by (simp add: read_gene_list_def)
next
  assume a: "path_exists E p \<and>
      str_lower (path_suffix E p) \<notin> set [''.csv'', ''.tsv'', ''.txt'', ''.xls'', ''.xlsx'']"
  then have "load_table E p sh =
      Inl (ValueError (''Unsupported file format: '' @ str_lower (path_suffix E p)))"
    by (intro load_table_unsupported) simp
  with a show "read_gene_list E p gc sh =
          Inl (ValueError (''Unsupported file format: '' @ str_lower (path_suffix E p)))"
    by (simp add: read_gene_list_def)
next
  assume a: "path_exists E p \<and> load_table E p sh = Inr df \<and> LStr c \<notin> set (columns df)"
  then have "map_of (table df) (LStr c) = None"
    by (simp add: map_of_columns)
  with a show "read_gene_list E p (Some c) sh =
          Inl (ValueError (''Column '' @ [CHR 0x27] @ c @ [CHR 0x27]
                 @ '' does not exist. Available columns: '' @ repr_list E (columns df)))"
    by (simp add: read_gene_list_def resolve_column_def)
next
  show "\<forall>x \<in> set (columns df). sublist (repr_label E x) (repr_list E (columns df))"
    by (intro ballI repr_list_enumerates)
next
  assume a: "path_exists E p \<and> load_table E p sh = Inr df \<and> columns df \<noteq> []
      \<and> (\<forall>x. gc = Some x \<longrightarrow> LStr x \<in> set (columns df))
      \<and> (gc = None \<longrightarrow> (\<forall>x \<in> set (columns df). is_str x))"
  have "\<exists>c. resolve_column df gc = Inr c \<and> c \<in> set (columns df)"
  proof (cases gc)
    case None
    with a show ?thesis
      by (intro resolve_column_auto_str [of df, folded None]) simp_all
  next
    case (Some x)
    with a show ?thesis
      by (simp add: resolve_column_def)
  qed
  then obtain c' where c: "resolve_column df gc = Inr c'" "c' \<in> set (columns df)"
    by blast
  from a have e: "path_exists E p" and l: "load_table E p sh = Inr df"
    by simp_all
  from read_gene_list_resolved [OF e l c] show "\<exists>r. read_gene_list E p gc sh = Inr r"
    by blast
qed

theorem read_gene_list_errors_witness:
  "\<not> path_exists (example_env example_df) ''absent.csv'' \<and>
   read_gene_list (example_env example_df) ''absent.csv'' None (SheetIndex 0)
     = Inl (FileNotFoundError ''File not found: absent.csv'') \<and>
   path_exists (example_env example_df) ''notes.pdf'' \<and>
   read_gene_list (example_env example_df) ''notes.pdf'' None (SheetIndex 0)
     = Inl (ValueError ''Unsupported file format: .pdf'') \<and>
   LStr ''symbol'' \<notin> set (columns example_df) \<and>
   read_gene_list (example_env example_df) ''genes.csv'' (Some ''symbol'') (SheetIndex 0)
     = Inl (ValueError (''Column '' @ [CHR 0x27] @ ''symbol'' @ [CHR 0x27]
             @ '' does not exist. Available columns: ''
             @ repr_list (example_env example_df) (columns example_df))) \<and>
   LStr ''id'' \<in> set (columns example_df) \<and>
   (\<exists>r. read_gene_list (example_env example_df) ''genes.csv'' (Some ''id'') (SheetIndex 0) = Inr r) \<and>
   list_all is_str (columns example_df) \<and>
   (\<exists>r. read_gene_list (example_env example_df) ''genes.csv'' None (SheetIndex 0) = Inr r)"
proof -
  let ?E = "example_env example_df"
  have a: "\<not> path_exists ?E ''absent.csv''"
    by (simp add: example_env_def)
  have b: "path_exists ?E ''notes.pdf''"
    by (simp add: example_env_def)
  have s: "str_lower (path_suffix ?E ''notes.pdf'') = ''.pdf''"
    by code_simp
  have u: "str_lower (path_suffix ?E ''notes.pdf'')
             \<notin> set [''.csv'', ''.tsv'', ''.txt'', ''.xls'', ''.xlsx'']"
    unfolding s by simp
  have c: "LStr ''symbol'' \<notin> set (columns example_df)" "LStr ''id'' \<in> set (columns example_df)"
      "columns example_df \<noteq> []"
    by (simp_all add: columns_def example_df_def)
  have st: "\<forall>x \<in> set (columns example_df). is_str x"
    by (simp add: columns_def example_df_def)
  have g: "\<forall>x. Some ''id'' = Some x \<longrightarrow> LStr x \<in> set (columns example_df)"
    using c by simp
  have g': "Some ''id'' = None \<longrightarrow> (\<forall>x \<in> set (columns example_df). is_str x)"
    by simp
  have n: "\<forall>x. (None :: string option) = Some x \<longrightarrow> LStr x \<in> set (columns example_df)"
    by simp
  note e = exists_example [of example_df] and l = load_example [of example_df "SheetIndex 0"]
  from read_gene_list_errors [of ?E "''absent.csv''" None "SheetIndex 0" example_df "''symbol''"] a
  have r1: "read_gene_list ?E ''absent.csv'' None (SheetIndex 0)
     = Inl (FileNotFoundError ''File not found: absent.csv'')"
    by simp
  from read_gene_list_errors [of ?E "''notes.pdf''" None "SheetIndex 0" example_df "''symbol''"] b u
  have r2: "read_gene_list ?E ''notes.pdf'' None (SheetIndex 0)
     = Inl (ValueError ''Unsupported file format: .pdf'')"
    unfolding s by simp
  from read_gene_list_errors [of ?E "''genes.csv''" "Some ''id''" "SheetIndex 0" example_df "''symbol''"]
    e l c g g'
  have r3: "read_gene_list ?E ''genes.csv'' (Some ''symbol'') (SheetIndex 0)
     = Inl (ValueError (''Column '' @ [CHR 0x27] @ ''symbol'' @ [CHR 0x27]
             @ '' does not exist. Available columns: ''
             @ repr_list ?E (columns example_df)))"
    and r4: "\<exists>r. read_gene_list ?E ''genes.csv'' (Some ''id'') (SheetIndex 0) = Inr r"
    by blast+
  from read_gene_list_errors [of ?E "''genes.csv''" None "SheetIndex 0" example_df "''symbol''"]
    e l c n st
  have r5: "\<exists>r. read_gene_list ?E ''genes.csv'' None (SheetIndex 0) = Inr r"
    by blast
  have st': "list_all is_str (columns example_df)"
    using st by (simp add: list_all_iff)
  from a b c st' r1 r2 r3 r4 r5 show ?thesis
    by blast
qed

text \<open>
  The claim as stated fails: a workbook whose sheet is empty parses to a table without
  columns, and with no explicit column name \<open>df.columns[0]\<close> raises \<open>IndexError\<close>, a
  fourth error, although the file exists and its format is supported.
\<close>

theorem read_gene_list_fourth_error:
  "path_exists (example_env empty_df) ''empty.xlsx'' \<and>
   str_lower (path_suffix (example_env empty_df) ''empty.xlsx'')
     \<in> set [''.csv'', ''.tsv'', ''.txt'', ''.xls'', ''.xlsx''] \<and>
   read_gene_list (example_env empty_df) ''empty.xlsx'' None (SheetIndex 0) = Inl IndexError"
  by code_simp

subsection \<open>The pair-interaction request\<close>

text \<open>
  Claim C1, as amended. For every pair of gene symbols, the \<open>identifiers\<close> parameter of
  the pair-interaction request is the first symbol, the three characters \<open>%0d\<close> (the
  percent-encoded form of a carriage return) and the second symbol; the request carries
  the fixed caller-identity tag \<open>pathway-mcp-agent\<close>; and this request is what the
  transport receives (a transport that answers with the request it got returns it).
\<close>

theorem pair_request_identifiers:
  "map_of (req_params (get_interaction_request gene_a gene_b species)) ''identifiers''
     = Some (PStr (gene_a @ ''%0d'' @ gene_b)) \<and>
   map_of (req_params (get_interaction_request gene_a gene_b species)) ''caller_identity''
     = Some (PStr ''pathway-mcp-agent'') \<and>
   get_interaction Inr gene_a gene_b species = Some (get_interaction_request gene_a gene_b species)"
  by (simp add: get_interaction_request_def get_interaction_def)

text \<open>
  The claim as stated fails: the value handed to the transport for TP53 and MDM2 is not
  TP53, a carriage-return character, MDM2.
\<close>

theorem pair_request_no_carriage_return:
  "map_of (req_params (get_interaction_request ''TP53'' ''MDM2'' 9606)) ''identifiers''
     \<noteq> Some (PStr (''TP53'' @ [CHR 0x0D] @ ''MDM2''))"
  by (simp add: get_interaction_request_def)

subsection \<open>The bar chart\<close>

text \<open>
  Claim C8, as amended. For an empty term sequence the renderer returns the literal string
  \<open>No terms to plot\<close> and performs no action on the file system: no directory is made
  and no image is saved.
\<close>

theorem empty_plot_guard:
  "create_enrichment_barplot P [] title output_path = Inr (''No terms to plot'', [])"
  by (simp add: create_enrichment_barplot_def)

text \<open>
  The claim as stated fails on the literal: the string returned begins with a capital N.
\<close>

theorem empty_plot_literal:
  "create_enrichment_barplot example_paths [] ''Enrichment Analysis'' None
     \<noteq> Inr (''no terms to plot'', [])"
  by (simp add: create_enrichment_barplot_def)

text \<open>
  Claim C9 does not hold of the code. For a single term whose p-value is 0, and for a
  single term whose p-value is 1, every significance is 0, so the maximum is 0 and the
  colour normalization divides by zero: the renderer raises \<open>ZeroDivisionError\<close> and
  returns no path.
\<close>

theorem barplot_zero_division:
  "create_enrichment_barplot example_paths [zero_p_term] ''Enrichment Analysis'' None
     = Inl ZeroDivisionError \<and>
   create_enrichment_barplot example_paths [unit_p_term] ''Enrichment Analysis'' None
     = Inl ZeroDivisionError"
  by (simp add: create_enrichment_barplot_def zero_p_term_def unit_p_term_def)


subsection \<open>The enrichment report\<close>

lemma enumerate_take:
  "n \<le> length ts \<Longrightarrow> enumerate 1 (take n ts) = map (\<lambda>i. (Suc i, ts ! i)) [0..<n]"
  by (rule nth_equalityI) (simp_all add: nth_enumerate_eq)

lemma slice_to_take: "0 \<le> n \<Longrightarrow> slice_to n xs = take (nat n) xs"
  by (simp add: slice_to_def)

lemma report_lines_entries:
  assumes "0 \<le> top_n" "nat top_n \<le> length ts"
  shows "report_lines fmt gl db ts top_n =
     [''Enrichr result for '' @ db,
      ''Database: '' @ db,
      ''Gene count: '' @ str_nat (length gl),
      ''Enriched term count: '' @ str_nat (length ts),
      ''Top '' @ str_int top_n @ '' terms:'']
     @ concat (map (\<lambda>i.
         [str_nat (Suc i) @ ''. **'' @ term_name (ts ! i) @ ''**'',
          ''   - P-value: '' @ fmt (p_value (ts ! i)),
          ''   - gene: '' @ str_join '', '' (genes (ts ! i))]) [0..<nat top_n])"
proof -
  from assms have "enumerate 1 (slice_to top_n ts) = map (\<lambda>i. (Suc i, ts ! i)) [0..<nat top_n]"
    by (simp only: slice_to_take enumerate_take)
  then show ?thesis
    by (simp add: report_lines_def term_entry_def comp_def Let_def del: upt_Suc One_nat_def)
qed

text \<open>
  Claim C3. When the enrichment service returns a ranked term sequence of length at least
  \<open>top_n\<close> (a count, so not negative), the report is the five header lines followed by
  exactly \<open>top_n\<close> entries of three lines each; the entry at position \<open>i\<close> (from 0) is
  numbered \<open>i + 1\<close> and shows the name, p-value and genes of the input's term at
  position \<open>i\<close>: the first \<open>top_n\<close> terms, in input order.
\<close>

theorem enrichment_report_truncates:
  assumes "submit_gene_list S gl = Some sr" and "sr \<noteq> []"
    and "map_of sr ''userListId'' = Some uid"
    and "get_enrichment S uid db = Some er" and "map_of er db = Some ts"
    and "0 \<le> top_n" and "nat top_n \<le> length ts"
  shows "perform_enrichment S fmt gl db top_n =
     Inr (str_join newline
       ([''Enrichr result for '' @ db,
         ''Database: '' @ db,
         ''Gene count: '' @ str_nat (length gl),
         ''Enriched term count: '' @ str_nat (length ts),
         ''Top '' @ str_int top_n @ '' terms:'']
        @ concat (map (\<lambda>i.
            [str_nat (Suc i) @ ''. **'' @ term_name (ts ! i) @ ''**'',
             ''   - P-value: '' @ fmt (p_value (ts ! i)),
             ''   - gene: '' @ str_join '', '' (genes (ts ! i))]) [0..<nat top_n])))
     \<and> length (drop 5 (report_lines fmt gl db ts top_n)) = 3 * nat top_n"
proof -
  have len: "length (concat (map f xs)) = 3 * length xs" if "\<And>x. length (f x) = 3"
    for f :: "nat \<Rightarrow> string list" and xs
    using that by (induction xs) simp_all
  from assms(1-5) have "perform_enrichment S fmt gl db top_n =
      Inr (str_join newline (report_lines fmt gl db ts top_n))"
    by (simp add: perform_enrichment_def)
  then show ?thesis
    unfolding report_lines_entries [OF assms(6,7)] by (simp add: len del: upt_Suc)
qed

theorem enrichment_report_truncates_witness:
  "submit_gene_list example_services [''TP53'', ''MDM2'', ''EGFR'']
     = Some [(''userListId'', JInt 42), (''shortId'', JStr ''abc'')] \<and>
   get_enrichment example_services (JInt 42) ''KEGG_2021_Human''
     = Some [(''KEGG_2021_Human'', example_terms)] \<and>
   nat 2 \<le> length example_terms \<and>
   perform_enrichment example_services (\<lambda>p. ''?'') [''TP53'', ''MDM2'', ''EGFR''] ''KEGG_2021_Human'' 2
     = Inr (str_join newline
        [''Enrichr result for KEGG_2021_Human'',
         ''Database: KEGG_2021_Human'',
         ''Gene count: 3'',
         ''Enriched term count: 3'',
         ''Top 2 terms:'',
         ''1. **p53 signaling pathway**'',
         ''   - P-value: ?'',
         ''   - gene: TP53, MDM2'',
         ''2. **Cell cycle**'',
         ''   - P-value: ?'',
         ''   - gene: TP53'']) \<and>
   length (drop 5 (report_lines (\<lambda>p. ''?'') [''TP53'', ''MDM2'', ''EGFR''] ''KEGG_2021_Human''
     example_terms 2)) = 3 * nat 2"
proof -
  have h1: "submit_gene_list example_services [''TP53'', ''MDM2'', ''EGFR'']
     = Some [(''userListId'', JInt 42), (''shortId'', JStr ''abc'')]"
    by (simp add: example_services_def)
  have h2: "[(''userListId'', JInt 42), (''shortId'', JStr ''abc'')] \<noteq> []"
    by simp
  have h3: "map_of [(''userListId'', JInt 42), (''shortId'', JStr ''abc'')] ''userListId''
     = Some (JInt 42)"
    by simp
  have h4: "get_enrichment example_services (JInt 42) ''KEGG_2021_Human''
     = Some [(''KEGG_2021_Human'', example_terms)]"
    by (simp add: example_services_def)
  have h5: "map_of [(''KEGG_2021_Human'', example_terms)] ''KEGG_2021_Human'' = Some example_terms"
    by simp
  have h6: "(0::int) \<le> 2"
    by simp
  have h7: "nat 2 \<le> length example_terms"
    by (simp add: example_terms_def)
  have ev: "str_join newline
       ([''Enrichr result for '' @ ''KEGG_2021_Human'',
         ''Database: '' @ ''KEGG_2021_Human'',
         ''Gene count: '' @ str_nat (length [''TP53'', ''MDM2'', ''EGFR'']),
         ''Enriched term count: '' @ str_nat (length example_terms),
         ''Top '' @ str_int 2 @ '' terms:'']
        @ concat (map (\<lambda>i.
            [str_nat (Suc i) @ ''. **'' @ term_name (example_terms ! i) @ ''**'',
             ''   - P-value: '' @ ''?'',
             ''   - gene: '' @ str_join '', '' (genes (example_terms ! i))]) [0..<nat 2]))
     = str_join newline
        [''Enrichr result for KEGG_2021_Human'',
         ''Database: KEGG_2021_Human'',
         ''Gene count: 3'',
         ''Enriched term count: 3'',
         ''Top 2 terms:'',
         ''1. **p53 signaling pathway**'',
         ''   - P-value: ?'',
         ''   - gene: TP53, MDM2'',
         ''2. **Cell cycle**'',
         ''   - P-value: ?'',
         ''   - gene: TP53'']"
    by code_simp
  from enrichment_report_truncates [OF h1 h2 h3 h4 h5 h6 h7, of "\<lambda>p. ''?''"] h1 h4 h7
  show ?thesis
    unfolding ev by simp
qed

subsection \<open>The pair-interaction report\<close>






subsection \<open>Further facts\<close>

text \<open>
  The normalization raises exactly when a bar is present and the maximum is 0; so for a
  non-empty term sequence the renderer raises \<open>ZeroDivisionError\<close> exactly when the
  largest significance is 0.
\<close>

lemma normalize_by_eq:
  "normalize_by d ps =
     (if ps \<noteq> [] \<and> d = 0 then Inl ZeroDivisionError else Inr (map (\<lambda>p. p / d) ps))"
  by (induction ps) auto

lemma barplot_raises_iff:
  assumes "terms \<noteq> []"
  shows "(create_enrichment_barplot P terms title output_path = Inl ZeroDivisionError)
     = (Max (set (map (\<lambda>t. if p_value t > 0 then - log 10 (p_value t) else 0) terms)) = 0)"
proof -
  have m: "fold max xs x = Max (set (x # xs))" for x :: real and xs
    by (rule Max.set_eq_fold [symmetric])
  obtain t ts where t: "terms = t # ts"
    using assms by (cases terms) auto
  show ?thesis
    unfolding t create_enrichment_barplot_def Let_def normalize_by_eq
    by (simp add: m comp_def split: option.splits del: Max_insert set_simps)
qed

text \<open>
  A negative \<open>top_n\<close> is not a count: the slice then drops terms from the end, and the
  report for \<open>top_n = -1\<close> on three terms shows the first two.
\<close>

lemma report_negative_top_n:
  "report_lines (\<lambda>p. ''?'') [''TP53''] ''KEGG_2021_Human'' example_terms (- 1) =
     [''Enrichr result for KEGG_2021_Human'',
      ''Database: KEGG_2021_Human'',
      ''Gene count: 1'',
      ''Enriched term count: 3'',
      ''Top -1 terms:'',
      ''1. **p53 signaling pathway**'',
      ''   - P-value: ?'',
      ''   - gene: TP53, MDM2'',
      ''2. **Cell cycle**'',
      ''   - P-value: ?'',
      ''   - gene: TP53'']"
  by code_simp

end
